theory Spec2Isabelle
  imports Complex_Main
begin

section \<open>Values and records of the weather pipeline (main.py)\<close>

text \<open>
  Numbers that come from the provider's JSON (temperatures, wind speed) are finite Python
  numbers; each of them is a rational, and Python's comparisons of such a number with an
  integer constant are exact, so they are modelled as \<^typ>\<open>rat\<close>.

  A \<open>datetime\<close> is a naive local wall-clock instant, as \<open>datetime.fromtimestamp\<close> and
  \<open>datetime.now\<close> return it; it is modelled by its position on the naive time line, counted
  in seconds. Python compares two naive datetimes by that position.
\<close>

type_synonym datetime = int

text \<open>
  The dictionary \<open>processed_data\<close> that \<open>extract\<close> builds for one city (lines 71-84); the
  fields are listed in the order of the dictionary's keys.
\<close>

record observation =
  city :: string
  country :: string
  temperature :: rat
  feels_like :: rat
  humidity :: int
  pressure :: int
  wind_speed :: rat
  weather_main :: string
  weather_description :: string
  timestamp :: datetime
  sunrise :: datetime
  sunset :: datetime

text \<open>
  A row of the data frame that \<open>transform\<close> returns: the twelve columns above and the six
  columns that \<open>transform\<close> assigns, in the order of the assignments (lines 108, 117, 120,
  125, 140, 143). The column \<open>temp_category\<close> is the field \<open>temp_category_col\<close>, since the
  name \<open>temp_category\<close> is kept for the function of line 128.
\<close>

record enriched = observation +
  etl_timestamp :: datetime
  day_night :: string
  temperature_f :: rat
  feels_like_f :: rat
  temp_category_col :: string
  data_quality :: string

text \<open>
  A pandas data frame: the column labels in their order (\<open>df.columns\<close>) and the rows.
  A frame built from an empty list of dictionaries has no column at all.
\<close>

record 'r frame =
  columns :: "string list"
  rows :: "'r list"

text \<open>The keys of \<open>processed_data\<close>, in the order in which lines 72-83 write them.\<close>

definition observation_columns :: "string list" where
  "observation_columns =
     [''city'', ''country'', ''temperature'', ''feels_like'', ''humidity'', ''pressure'',
      ''wind_speed'', ''weather_main'', ''weather_description'', ''timestamp'', ''sunrise'',
      ''sunset'']"

text \<open>\<open>pd.DataFrame(all_weather_data)\<close> (line 90): the columns are the keys of the dictionaries.\<close>

definition DataFrame :: "observation list \<Rightarrow> observation frame" where
  "DataFrame all_weather_data =
     \<lparr>columns = (if all_weather_data = [] then [] else observation_columns),
      rows = all_weather_data\<rparr>"

section \<open>Exceptions, log records, the world outside the process\<close>

datatype error =
    ValueError string
  | KeyError string
  | IndexError
  | TimestampError
  | ConnectionError
  | HTTPError nat
  | JSONDecodeError
  | OperationalError
  | ProgrammingError string

text \<open>
  \<open>TimestampError\<close> stands for what \<open>datetime.fromtimestamp\<close> raises on an instant outside
  the years 1 to 9999 (OverflowError, OSError or ValueError, by platform).
  \<open>ConnectionError\<close>, \<open>HTTPError\<close> and \<open>JSONDecodeError\<close> are the classes of
  \<open>requests.exceptions\<close>, all below \<open>RequestException\<close>; \<open>OperationalError\<close> and
  \<open>ProgrammingError\<close> are those of psycopg2.
\<close>

fun is_RequestException :: "error \<Rightarrow> bool" where
  "is_RequestException ConnectionError = True"
| "is_RequestException (HTTPError s) = True"
| "is_RequestException JSONDecodeError = True"
| "is_RequestException e = False"

text \<open>A log message is an f-string: literal text, a count, or the text of an exception.\<close>

datatype piece = Txt string | Cnt nat | Exc error

datatype log_record = INFO "piece list" | ERROR "piece list"

text \<open>
  The provider's answer to one request. The body is the JSON object of the documented
  shape; every key may be absent (\<open>None\<close>), and the list under \<open>weather\<close> may be empty.
  A present value has the documented JSON type.
\<close>

record sys_json =
  j_country :: "string option"
  j_sunrise :: "int option"
  j_sunset :: "int option"

record main_json =
  j_temp :: "rat option"
  j_feels_like :: "rat option"
  j_humidity :: "int option"
  j_pressure :: "int option"

record wind_json =
  j_speed :: "rat option"

record weather_json =
  j_main :: "string option"
  j_description :: "string option"

record weather_data =
  k_sys :: "sys_json option"
  k_main :: "main_json option"
  k_wind :: "wind_json option"
  k_weather :: "weather_json list option"
  k_dt :: "int option"

text \<open>
  What \<open>requests.get\<close> gives: no answer at all (the call raises), or a response with its
  status code and its body, \<open>None\<close> when the body is not JSON (\<open>response.json()\<close> raises).
\<close>

datatype http_result = NoConnection | Response nat "weather_data option"

record request =
  q :: string
  appid :: string
  units :: string

text \<open>A value that psycopg2 sends for one column of one row.\<close>

datatype cell = Text string | Numeric rat | Integer int | Timestamp datetime

text \<open>
  The PostgreSQL database as far as the pipeline touches it: the column names of the
  table \<open>current_weather\<close> (\<open>None\<close> while the table does not exist) and its committed rows,
  each row the values of the columns named by the INSERT. The generated \<open>id\<close> of a row is
  the server's and is left out.
\<close>

record database =
  current_weather :: "string list option"
  committed :: "(string \<times> cell) list list"

text \<open>
  The environment of one run, which the code reads but does not change: the module constant
  \<open>API_KEY\<close> (\<open>os.getenv\<close> gives \<open>None\<close> when the variable is not set), the provider behind
  \<open>requests.get\<close>, the local time zone's offset from UTC at an epoch instant, the reading of
  the wall clock at the n-th call of \<open>datetime.now\<close>, and whether the n-th round trip to
  the database server goes through.
\<close>

record env =
  API_KEY :: "string option"
  requests_get :: "string \<Rightarrow> request \<Rightarrow> http_result"
  utcoffset :: "int \<Rightarrow> int"
  clock :: "nat \<Rightarrow> datetime"
  pg_up :: "nat \<Rightarrow> bool"

text \<open>
  What a run changes: the records written to the logger, the requests sent to the
  provider, the number of clock readings and of database round trips so far, and the database.
\<close>

record world =
  logged :: "log_record list"
  sent :: "(string \<times> request) list"
  clock_reads :: nat
  pg_calls :: nat
  pg :: database

definition logger_info :: "piece list \<Rightarrow> world \<Rightarrow> world" where
  "logger_info msg w = w\<lparr>logged := logged w @ [INFO msg]\<rparr>"

definition logger_error :: "piece list \<Rightarrow> world \<Rightarrow> world" where
  "logger_error msg w = w\<lparr>logged := logged w @ [ERROR msg]\<rparr>"

definition datetime_now :: "env \<Rightarrow> world \<Rightarrow> datetime \<times> world" where
  "datetime_now E w = (clock E (clock_reads w), w\<lparr>clock_reads := Suc (clock_reads w)\<rparr>)"

section \<open>transform (lines 99-154)\<close>

text \<open>\<open>is_daytime\<close> (lines 111-115); \<open>a <= b <= c\<close> is \<open>a <= b and b <= c\<close>.\<close>

definition is_daytime :: "observation \<Rightarrow> string" where
  "is_daytime row =
     (if sunrise row \<le> timestamp row \<and> timestamp row \<le> sunset row then ''Day'' else ''Night'')"

text \<open>
  The expression of lines 120 and 125, \<open>c * 9/5 + 32\<close>, over the rationals. The code
  evaluates it in binary floating point, rounding after each operation; the rounding is
  not modelled, and no theorem below is about the value of a Fahrenheit field.
\<close>

definition to_fahrenheit :: "rat \<Rightarrow> rat" where
  "to_fahrenheit c = c * 9 / 5 + 32"

text \<open>\<open>temp_category\<close> (lines 128-138).\<close>

definition temp_category :: "rat \<Rightarrow> string" where
  "temp_category temp =
     (if temp < 0 then ''Very Cold''
      else if temp < 10 then ''Cold''
      else if temp < 20 then ''Mild''
      else if temp < 30 then ''Warm''
      else ''Hot'')"

text \<open>
  Lines 143-147: the column is set to \<open>'Good'\<close> in every row, then overwritten where the
  temperature is above 50, then where it is below -50.
\<close>

definition mark_data_quality :: "rat \<Rightarrow> string" where
  "mark_data_quality temp =
     (let dq0 = ''Good'';
          dq1 = (if temp > 50 then ''Suspicious'' else dq0);
          dq2 = (if temp < - 50 then ''Suspicious'' else dq1)
      in dq2)"

text \<open>One row after all the column assignments of \<open>transform\<close>.\<close>

definition enrich :: "datetime \<Rightarrow> observation \<Rightarrow> enriched" where
  "enrich now row =
     \<lparr>city = city row, country = country row, temperature = temperature row,
      feels_like = feels_like row, humidity = humidity row, pressure = pressure row,
      wind_speed = wind_speed row, weather_main = weather_main row,
      weather_description = weather_description row, timestamp = timestamp row,
      sunrise = sunrise row, sunset = sunset row,
      etl_timestamp = now,
      day_night = is_daytime row,
      temperature_f = to_fahrenheit (temperature row),
      feels_like_f = to_fahrenheit (feels_like row),
      temp_category_col = temp_category (temperature row),
      data_quality = mark_data_quality (temperature row)\<rparr>"

text \<open>
  \<open>df[name] = ...\<close> on the column labels: an existing column keeps its place, a new one is
  appended.
\<close>

definition setitem :: "string list \<Rightarrow> string \<Rightarrow> string list" where
  "setitem cols name = (if name \<in> set cols then cols else cols @ [name])"

text \<open>
  The body of the \<open>try\<close> block, given the one clock reading of line 108. Reading a column
  that the frame does not have raises KeyError: \<open>is_daytime\<close> reads \<open>timestamp\<close>,
  \<open>sunrise\<close> and \<open>sunset\<close> of each row (of no row when the frame is empty), lines 120 and 140
  read \<open>temperature\<close>, line 125 reads \<open>feels_like\<close>.
\<close>

definition transform_columns :: "datetime \<Rightarrow> observation frame \<Rightarrow> error + enriched frame" where
  "transform_columns now df =
     (let c1 = setitem (columns df) ''etl_timestamp'' in
      if rows df \<noteq> [] \<and> ''timestamp'' \<notin> set c1 then Inl (KeyError ''timestamp'')
      else if rows df \<noteq> [] \<and> ''sunrise'' \<notin> set c1 then Inl (KeyError ''sunrise'')
      else if rows df \<noteq> [] \<and> ''sunset'' \<notin> set c1 then Inl (KeyError ''sunset'')
      else let c2 = setitem c1 ''day_night'' in
      if ''temperature'' \<notin> set c2 then Inl (KeyError ''temperature'')
      else let c3 = setitem c2 ''temperature_f'' in
      if ''feels_like'' \<notin> set c3 then Inl (KeyError ''feels_like'')
      else let c4 = setitem c3 ''feels_like_f'';
               c5 = setitem c4 ''temp_category'';
               c6 = setitem c5 ''data_quality''
      in Inr \<lparr>columns = c6, rows = map (enrich now) (rows df)\<rparr>)"

definition transform :: "env \<Rightarrow> world \<Rightarrow> observation frame \<Rightarrow> (error + enriched frame) \<times> world" where
  "transform E w df =
     (let w1 = logger_info [Txt ''Starting transformation phase...''] w;
          (now, w2) = datetime_now E w1
      in case transform_columns now df of
           Inr out \<Rightarrow> (Inr out, logger_info [Txt ''Data transformation completed''] w2)
         | Inl e \<Rightarrow> (Inl e, logger_error [Txt ''Error transforming data: '', Exc e] w2))"

text \<open>The names of the columns that \<open>transform\<close> assigns, in the order of the assignments.\<close>

definition added_columns :: "string list" where
  "added_columns =
     [''etl_timestamp'', ''day_night'', ''temperature_f'', ''feels_like_f'', ''temp_category'',
      ''data_quality'']"

section \<open>extract (lines 41-97)\<close>

definition CITIES :: "string list" where
  "CITIES = [''London, UK'', ''New York, US'', ''Tokyo, JP'', ''Sydney, AU'', ''Rio de Janeiro, BR'']"

definition WEATHER_API_URL :: string where
  "WEATHER_API_URL = ''https://api.openweathermap.org/data/2.5/weather''"

text \<open>Sequencing of steps that may raise: the first exception ends the computation.\<close>

definition and_then :: "error + 'a \<Rightarrow> ('a \<Rightarrow> error + 'b) \<Rightarrow> error + 'b" where
  "and_then m f = (case m of Inl e \<Rightarrow> Inl e | Inr x \<Rightarrow> f x)"

text \<open>\<open>d[key]\<close> on a dictionary of the response, and \<open>xs[0]\<close> on its list.\<close>

definition getitem :: "string \<Rightarrow> 'a option \<Rightarrow> error + 'a" where
  "getitem key v = (case v of None \<Rightarrow> Inl (KeyError key) | Some x \<Rightarrow> Inr x)"

definition first_item :: "'a list \<Rightarrow> error + 'a" where
  "first_item xs = (case xs of [] \<Rightarrow> Inl IndexError | x # _ \<Rightarrow> Inr x)"

text \<open>
  \<open>datetime.fromtimestamp\<close>: the local wall-clock reading of an epoch instant, with no
  time zone attached. It raises outside the years 1 to 9999.
\<close>

definition fromtimestamp :: "env \<Rightarrow> int \<Rightarrow> error + datetime" where
  "fromtimestamp E t =
     (let local = t + utcoffset E t in
      if - 62135596800 \<le> local \<and> local \<le> 253402300799 then Inr local
      else Inl TimestampError)"

text \<open>
  The dictionary literal of lines 71-84: its values are evaluated in the order written,
  and the first lookup that fails raises.
\<close>

definition processed_data :: "env \<Rightarrow> string \<Rightarrow> weather_data \<Rightarrow> error + observation" where
  "processed_data E c wd =
     and_then (and_then (getitem ''sys'' (k_sys wd)) (\<lambda>s. getitem ''country'' (j_country s)))
       (\<lambda>v_country.
     and_then (and_then (getitem ''main'' (k_main wd)) (\<lambda>m. getitem ''temp'' (j_temp m)))
       (\<lambda>v_temperature.
     and_then (and_then (getitem ''main'' (k_main wd)) (\<lambda>m. getitem ''feels_like'' (j_feels_like m)))
       (\<lambda>v_feels_like.
     and_then (and_then (getitem ''main'' (k_main wd)) (\<lambda>m. getitem ''humidity'' (j_humidity m)))
       (\<lambda>v_humidity.
     and_then (and_then (getitem ''main'' (k_main wd)) (\<lambda>m. getitem ''pressure'' (j_pressure m)))
       (\<lambda>v_pressure.
     and_then (and_then (getitem ''wind'' (k_wind wd)) (\<lambda>x. getitem ''speed'' (j_speed x)))
       (\<lambda>v_wind_speed.
     and_then (and_then (and_then (getitem ''weather'' (k_weather wd)) first_item)
                 (\<lambda>x. getitem ''main'' (j_main x)))
       (\<lambda>v_weather_main.
     and_then (and_then (and_then (getitem ''weather'' (k_weather wd)) first_item)
                 (\<lambda>x. getitem ''description'' (j_description x)))
       (\<lambda>v_weather_description.
     and_then (and_then (getitem ''dt'' (k_dt wd)) (fromtimestamp E))
       (\<lambda>v_timestamp.
     and_then (and_then (and_then (getitem ''sys'' (k_sys wd)) (\<lambda>s. getitem ''sunrise'' (j_sunrise s)))
                 (fromtimestamp E))
       (\<lambda>v_sunrise.
     and_then (and_then (and_then (getitem ''sys'' (k_sys wd)) (\<lambda>s. getitem ''sunset'' (j_sunset s)))
                 (fromtimestamp E))
       (\<lambda>v_sunset.
     Inr \<lparr>city = c, country = v_country, temperature = v_temperature,
          feels_like = v_feels_like, humidity = v_humidity, pressure = v_pressure,
          wind_speed = v_wind_speed, weather_main = v_weather_main,
          weather_description = v_weather_description, timestamp = v_timestamp,
          sunrise = v_sunrise, sunset = v_sunset\<rparr>)))))))))))"

text \<open>
  \<open>response.raise_for_status()\<close> raises HTTPError for a status from 400 to 599 and for no
  other.
\<close>

definition raise_for_status :: "nat \<Rightarrow> error + unit" where
  "raise_for_status status =
     (if 400 \<le> status \<and> status < 600 then Inl (HTTPError status) else Inr ())"

text \<open>
  The body of the loop for one city (lines 57-84), after the request was sent: the
  response is checked, decoded and flattened.
\<close>

definition fetch :: "env \<Rightarrow> string \<Rightarrow> request \<Rightarrow> error + observation" where
  "fetch E c params =
     (case requests_get E WEATHER_API_URL params of
        NoConnection \<Rightarrow> Inl ConnectionError
      | Response status body \<Rightarrow>
          and_then (raise_for_status status)
            (\<lambda>_. and_then (case body of None \<Rightarrow> Inl JSONDecodeError | Some wd \<Rightarrow> Inr wd)
                    (processed_data E c)))"

text \<open>The dictionary \<open>params\<close> of lines 57-61 for one city.\<close>

definition city_request :: "string \<Rightarrow> string \<Rightarrow> request" where
  "city_request key c = \<lparr>q = c, appid = key, units = ''metric''\<rparr>"

text \<open>
  The \<open>for\<close> loop of lines 55-87 over the cities still to be fetched; \<open>all_weather_data\<close>
  is the list built so far. An exception leaves the loop at once.
\<close>

fun extract_loop ::
  "env \<Rightarrow> string \<Rightarrow> string list \<Rightarrow> observation list \<Rightarrow> world
     \<Rightarrow> (error + observation list) \<times> world" where
  "extract_loop E key [] all_weather_data w = (Inr all_weather_data, w)"
| "extract_loop E key (c # rest) all_weather_data w =
     (let params = city_request key c;
          w1 = w\<lparr>sent := sent w @ [(WEATHER_API_URL, params)]\<rparr>
      in case fetch E c params of
           Inl e \<Rightarrow> (Inl e, w1)
         | Inr row \<Rightarrow>
             extract_loop E key rest (all_weather_data @ [row])
               (logger_info [Txt ''Extracted weather data for '', Txt c] w1))"

text \<open>
  \<open>extract\<close>, with the module constant \<open>CITIES\<close> as a parameter; it is named
  \<open>extract_weather\<close> here, \<open>extract\<close> being a reserved word of Isabelle. \<open>not API_KEY\<close>
  holds for \<open>None\<close> and for the empty string. Only a \<open>RequestException\<close> is caught, logged and raised
  again (lines 95-97); any other exception leaves \<open>extract\<close> as it is.
\<close>

definition extract_weather :: "env \<Rightarrow> string list \<Rightarrow> world \<Rightarrow> (error + observation frame) \<times> world" where
  "extract_weather E cities w =
     (let w0 = logger_info [Txt ''Starting extraction phase...''] w in
      if API_KEY E = None \<or> API_KEY E = Some [] then
        (Inl (ValueError ''Missing API key''),
         logger_error [Txt ''No API key found. Set WEATHER_API_KEY in your .env file''] w0)
      else
        (case extract_loop E (the (API_KEY E)) cities [] w0 of
           (Inl e, w1) \<Rightarrow>
             (Inl e,
              if is_RequestException e
              then logger_error [Txt ''Error extracting data from Weather API: '', Exc e] w1
              else w1)
         | (Inr all_weather_data, w1) \<Rightarrow>
             (let df = DataFrame all_weather_data in
              (Inr df,
               logger_info [Txt ''Extracted weather data for '', Cnt (length (rows df)),
                            Txt '' cities''] w1))))"

text \<open>
  When a fetch counts as failed, in the words of the specification: no answer, a
  non-success status, a body that is not JSON, or a body that lacks one of the required
  fields \<open>sys.country\<close>, \<open>main.temp\<close>, \<open>main.feels_like\<close>, \<open>main.humidity\<close>,
  \<open>main.pressure\<close>, \<open>wind.speed\<close>, \<open>weather[0].main\<close>, \<open>weather[0].description\<close>, \<open>dt\<close>,
  \<open>sys.sunrise\<close>, \<open>sys.sunset\<close>. These two predicates are not part of the code; the
  theorems compare the code with them.
\<close>

definition has_required_fields :: "weather_data \<Rightarrow> bool" where
  "has_required_fields wd =
     ((case k_sys wd of None \<Rightarrow> False
       | Some s \<Rightarrow> j_country s \<noteq> None \<and> j_sunrise s \<noteq> None \<and> j_sunset s \<noteq> None) \<and>
      (case k_main wd of None \<Rightarrow> False
       | Some m \<Rightarrow> j_temp m \<noteq> None \<and> j_feels_like m \<noteq> None \<and> j_humidity m \<noteq> None \<and>
                   j_pressure m \<noteq> None) \<and>
      (case k_wind wd of None \<Rightarrow> False | Some x \<Rightarrow> j_speed x \<noteq> None) \<and>
      (case k_weather wd of None \<Rightarrow> False | Some [] \<Rightarrow> False
       | Some (x # _) \<Rightarrow> j_main x \<noteq> None \<and> j_description x \<noteq> None) \<and>
      k_dt wd \<noteq> None)"

definition fetch_fails :: "env \<Rightarrow> string \<Rightarrow> string \<Rightarrow> bool" where
  "fetch_fails E key c =
     (case requests_get E WEATHER_API_URL (city_request key c) of
        NoConnection \<Rightarrow> True
      | Response status body \<Rightarrow>
          (400 \<le> status \<and> status < 600) \<or>
          (case body of None \<Rightarrow> True | Some wd \<Rightarrow> \<not> has_required_fields wd))"

section \<open>create_table and load (lines 156-251)\<close>

datatype sql_type = SERIAL_PRIMARY_KEY | TEXT | NUMERIC | INTEGER | TIMESTAMP

text \<open>The column declarations of \<open>create_table_query\<close> (lines 161-181), in their order.\<close>

definition create_table_query :: "(string \<times> sql_type) list" where
  "create_table_query =
     [(''id'', SERIAL_PRIMARY_KEY),
      (''city'', TEXT),
      (''country'', TEXT),
      (''temperature'', NUMERIC),
      (''temperature_f'', NUMERIC),
      (''feels_like'', NUMERIC),
      (''feels_like_f'', NUMERIC),
      (''humidity'', INTEGER),
      (''pressure'', INTEGER),
      (''wind_speed'', NUMERIC),
      (''weather_main'', TEXT),
      (''weather_description'', TEXT),
      (''timestamp'', TIMESTAMP),
      (''sunrise'', TIMESTAMP),
      (''sunset'', TIMESTAMP),
      (''day_night'', TEXT),
      (''temp_category'', TEXT),
      (''data_quality'', TEXT),
      (''etl_timestamp'', TIMESTAMP)]"

text \<open>
  The columns of the schema that hold data of a record: all but the generated \<open>id\<close>.
\<close>

definition schema_columns :: "string list" where
  "schema_columns = map fst (filter (\<lambda>(name, ty). ty \<noteq> SERIAL_PRIMARY_KEY) create_table_query)"

text \<open>
  \<open>CREATE TABLE IF NOT EXISTS\<close>: an existing table is left as it is, whatever its columns.
\<close>

definition execute_create :: "database \<Rightarrow> database" where
  "execute_create d =
     (case current_weather d of
        None \<Rightarrow> d\<lparr>current_weather := Some (map fst create_table_query)\<rparr>
      | Some cols \<Rightarrow> d)"

text \<open>
  One round trip to the database server (connecting, executing a statement, committing):
  the environment says whether it goes through; psycopg2 raises when it does not.
\<close>

definition pg_call :: "env \<Rightarrow> world \<Rightarrow> bool \<times> world" where
  "pg_call E w = (pg_up E (pg_calls w), w\<lparr>pg_calls := Suc (pg_calls w)\<rparr>)"

text \<open>
  \<open>create_table\<close>: connect, execute the statement, commit, close. The table exists for
  others only once the commit went through. Every exception is logged and raised again.
\<close>

definition create_table :: "env \<Rightarrow> world \<Rightarrow> (error + unit) \<times> world" where
  "create_table E w =
     (let failed = (\<lambda>e w'. (Inl e, logger_error [Txt ''Error creating table: '', Exc e] w'));
          (connected, w1) = pg_call E w
      in if \<not> connected then failed OperationalError w1
         else let (executed, w2) = pg_call E w1
      in if \<not> executed then failed OperationalError w2
         else let (done, w3) = pg_call E w2
      in if \<not> done then failed OperationalError w3
         else (Inr (),
               logger_info [Txt ''Target table created or already exists'']
                 (w3\<lparr>pg := execute_create (pg w3)\<rparr>)))"

text \<open>
  The value of one row under a column label, as \<open>itertuples\<close> yields it. A label that is
  no column of the row has no value.
\<close>

definition row_items :: "enriched \<Rightarrow> (string \<times> cell) list" where
  "row_items r =
     [(''city'', Text (city r)),
      (''country'', Text (country r)),
      (''temperature'', Numeric (temperature r)),
      (''feels_like'', Numeric (feels_like r)),
      (''humidity'', Integer (humidity r)),
      (''pressure'', Integer (pressure r)),
      (''wind_speed'', Numeric (wind_speed r)),
      (''weather_main'', Text (weather_main r)),
      (''weather_description'', Text (weather_description r)),
      (''timestamp'', Timestamp (timestamp r)),
      (''sunrise'', Timestamp (sunrise r)),
      (''sunset'', Timestamp (sunset r)),
      (''etl_timestamp'', Timestamp (etl_timestamp r)),
      (''day_night'', Text (day_night r)),
      (''temperature_f'', Numeric (temperature_f r)),
      (''feels_like_f'', Numeric (feels_like_f r)),
      (''temp_category'', Text (temp_category_col r)),
      (''data_quality'', Text (data_quality r))]"

text \<open>
  \<open>data_tuples\<close> (line 229): for each row the values in the order of \<open>df.columns\<close>.
\<close>

definition itertuples :: "enriched frame \<Rightarrow> cell option list list" where
  "itertuples df = map (\<lambda>r. map (map_of (row_items r)) (columns df)) (rows df)"

text \<open>
  The INSERT of lines 236-241 as the server runs it: the statement names its columns, and
  the i-th value of a tuple goes to the i-th named column. It is refused when the table
  does not exist, when no column or a column twice is named, when a named column is not
  one of the table, or when a tuple has no value for a column (which no frame that
  \<open>transform\<close> returns has). \<open>execute_values\<close> sends nothing for an empty list of tuples.
\<close>

definition insert_rows ::
  "database \<Rightarrow> string list \<Rightarrow> cell option list list \<Rightarrow> error + (string \<times> cell) list list" where
  "insert_rows d cols data_tuples =
     (case current_weather d of
        None \<Rightarrow> Inl (ProgrammingError ''relation current_weather does not exist'')
      | Some table_cols \<Rightarrow>
          if cols = [] then Inl (ProgrammingError ''syntax error'')
          else if \<not> distinct cols
          then Inl (ProgrammingError ''column specified more than once'')
          else if \<not> set cols \<subseteq> set table_cols
          then Inl (ProgrammingError ''column does not exist'')
          else if \<exists>t \<in> set data_tuples. None \<in> set t
          then Inl (ProgrammingError ''cannot adapt'')
          else Inr (map (\<lambda>t. zip cols (map the t)) data_tuples))"

text \<open>What a Python function returns: \<open>load\<close> and \<open>run_etl_pipeline\<close> have no \<open>return\<close>
  statement, so they return \<open>None\<close>.\<close>

datatype pyvalue = PyNone | PyInt int

text \<open>
  \<open>load\<close>: connect, \<open>create_table()\<close> (on a connection of its own), build the column list
  and the tuples, \<open>execute_values\<close>, commit, close, log the number of records. The rows are
  in the table only once the commit went through. Every exception is logged and raised
  again.
\<close>

definition load :: "env \<Rightarrow> world \<Rightarrow> enriched frame \<Rightarrow> (error + pyvalue) \<times> world" where
  "load E w df =
     (let failed = (\<lambda>e w'. (Inl e, logger_error [Txt ''Error loading data: '', Exc e] w'));
          w0 = logger_info [Txt ''Starting loading phase...''] w;
          (connected, w1) = pg_call E w0
      in if \<not> connected then failed OperationalError w1
         else case create_table E w1 of
           (Inl e, w2) \<Rightarrow> failed e w2
         | (Inr _, w2) \<Rightarrow>
             (let cols = columns df;
                  data_tuples = itertuples df;
                  (executed, w3) = (if data_tuples = [] then (True, w2) else pg_call E w2)
              in if \<not> executed then failed OperationalError w3
                 else case (if data_tuples = [] then Inr []
                            else insert_rows (pg w3) cols data_tuples) of
                   Inl e \<Rightarrow> failed e w3
                 | Inr staged \<Rightarrow>
                     (let (done, w4) = pg_call E w3
                      in if \<not> done then failed OperationalError w4
                         else (Inr PyNone,
                               logger_info [Txt ''Successfully loaded '', Cnt (length (rows df)),
                                            Txt '' weather records into PostgreSQL'']
                                 (w4\<lparr>pg := (pg w4)\<lparr>committed := committed (pg w4) @ staged\<rparr>\<rparr>)))))"

section \<open>run_etl_pipeline (lines 253-273)\<close>

definition run_etl_pipeline :: "env \<Rightarrow> world \<Rightarrow> (error + pyvalue) \<times> world" where
  "run_etl_pipeline E w =
     (let failed = (\<lambda>e w'. (Inl e, logger_error [Txt ''ETL pipeline failed: '', Exc e] w'));
          w0 = logger_info [Txt ''Starting Weather ETL pipeline...''] w
      in case extract_weather E CITIES w0 of
           (Inl e, w1) \<Rightarrow> failed e w1
         | (Inr raw_data, w1) \<Rightarrow>
             (case transform E w1 raw_data of
                (Inl e, w2) \<Rightarrow> failed e w2
              | (Inr transformed_data, w2) \<Rightarrow>
                  (case load E w2 transformed_data of
                     (Inl e, w3) \<Rightarrow> failed e w3
                   | (Inr _, w3) \<Rightarrow>
                       (Inr PyNone,
                        logger_info [Txt ''Weather ETL pipeline completed successfully''] w3))))"

section \<open>Sample data\<close>

text \<open>
  A response of the provider (22.5 degrees, observed one hour after sunrise), an
  environment in which every request gets it and the database is up, and a world with an
  empty log and no table.
\<close>

definition sample_response :: weather_data where
  "sample_response =
     \<lparr>k_sys = Some \<lparr>j_country = Some ''GB'', j_sunrise = Some 1700000000,
                     j_sunset = Some 1700043200\<rparr>,
      k_main = Some \<lparr>j_temp = Some (45 / 2), j_feels_like = Some 21, j_humidity = Some 60,
                      j_pressure = Some 1012\<rparr>,
      k_wind = Some \<lparr>j_speed = Some (16 / 5)\<rparr>,
      k_weather = Some [\<lparr>j_main = Some ''Clouds'', j_description = Some ''overcast''\<rparr>],
      k_dt = Some 1700003600\<rparr>"

definition sample_env :: env where
  "sample_env =
     \<lparr>API_KEY = Some ''k'',
      requests_get = (\<lambda>url params. Response 200 (Some sample_response)),
      utcoffset = (\<lambda>t. 0),
      clock = (\<lambda>n. 1700050000 + int n),
      pg_up = (\<lambda>n. True)\<rparr>"

definition sample_world :: world where
  "sample_world =
     \<lparr>logged = [], sent = [], clock_reads = 0, pg_calls = 0,
      pg = \<lparr>current_weather = None, committed = []\<rparr>\<rparr>"

text \<open>A row with a given temperature and observation time; sunrise and sunset are fixed.\<close>

definition sample_row :: "rat \<Rightarrow> datetime \<Rightarrow> observation" where
  "sample_row temp ts =
     \<lparr>city = ''London, UK'', country = ''GB'', temperature = temp, feels_like = 21,
      humidity = 60, pressure = 1012, wind_speed = 16 / 5, weather_main = ''Clouds'',
      weather_description = ''overcast'', timestamp = ts, sunrise = 1700000000,
      sunset = 1700043200\<rparr>"

definition sample_frame :: "observation frame" where
  "sample_frame =
     \<lparr>columns = observation_columns,
      rows = [sample_row (45 / 2) 1700003600, sample_row 0 1700000000,
              sample_row 50 1699999999, sample_row (- 500001 / 10000) 1700043200]\<rparr>"

text \<open>The frame that \<open>transform\<close> makes of \<open>sample_frame\<close> when the clock reads 1700050000.\<close>

definition sample_enriched :: "enriched frame" where
  "sample_enriched =
     \<lparr>columns = observation_columns @ added_columns,
      rows = map (enrich 1700050000) (rows sample_frame)\<rparr>"

text \<open>An environment without the credential, one in which the provider answers 404 for
  Tokyo, and one in which the database server is lost before the commit of \<open>load\<close>
  (its sixth round trip).\<close>

definition no_key_env :: env where
  "no_key_env = sample_env\<lparr>API_KEY := None\<rparr>"

definition tokyo_404_env :: env where
  "tokyo_404_env =
     sample_env\<lparr>requests_get :=
       (\<lambda>url params. if q params = ''Tokyo, JP'' then Response 404 None
                      else Response 200 (Some sample_response))\<rparr>"

definition commit_lost_env :: env where
  "commit_lost_env = sample_env\<lparr>pg_up := (\<lambda>n. n < 5)\<rparr>"

text \<open>A world in which the table exists already, with the columns of an older schema.\<close>

definition legacy_world :: world where
  "legacy_world =
     sample_world\<lparr>pg := \<lparr>current_weather = Some [''id'', ''city'', ''temperature''],
                           committed = []\<rparr>\<rparr>"

section \<open>Properties of transform\<close>

lemma transform_columns_rows:
  "transform_columns now df = Inr out \<Longrightarrow> rows out = map (enrich now) (rows df)"
  by (auto simp: transform_columns_def Let_def split: if_splits)

lemma transform_columns_observation:
  "columns df = observation_columns \<Longrightarrow>
   transform_columns now df =
     Inr \<lparr>columns = observation_columns @ added_columns, rows = map (enrich now) (rows df)\<rparr>"
  by (simp add: transform_columns_def observation_columns_def added_columns_def setitem_def)

lemma transform_fst:
  "fst (transform E w df) = transform_columns (clock E (clock_reads w)) df"
  by (simp add: transform_def datetime_now_def logger_info_def Let_def split: sum.splits)

lemma transform_clock_reads:
  "clock_reads (snd (transform E w df)) = Suc (clock_reads w)"
  by (simp add: transform_def datetime_now_def logger_info_def logger_error_def Let_def
      split: sum.splits)

text \<open>Every row of the result is a row of the input, enriched with the one clock reading.\<close>

lemma transform_row:
  assumes "fst (transform E w df) = Inr out" and "r \<in> set (rows out)"
  obtains x where "x \<in> set (rows df)" and "r = enrich (clock E (clock_reads w)) x"
proof -
  from assms(1) have "rows out = map (enrich (clock E (clock_reads w))) (rows df)"
    by (simp add: transform_fst transform_columns_rows)
  with assms(2) show ?thesis using that by auto
qed

lemma truncate_enrich: "observation.truncate (enrich now r) = r"
  by (simp add: enrich_def observation.truncate_def)

text \<open>
  A frame without columns, as \<open>pd.DataFrame([])\<close> gives it, is no batch of observations:
  \<open>transform\<close> raises KeyError on it.
\<close>

lemma transform_no_columns:
  "fst (transform E w (DataFrame [])) = Inl (KeyError ''temperature'')"
  by (simp add: transform_fst transform_columns_def DataFrame_def setitem_def)

lemma transform_sample:
  "fst (transform sample_env sample_world sample_frame) = Inr sample_enriched"
  by (simp add: transform_fst transform_columns_observation sample_frame_def sample_env_def
      sample_world_def sample_enriched_def)

lemma sample_enriched_rows:
  "rows sample_enriched =
     [enrich 1700050000 (sample_row (45 / 2) 1700003600),
      enrich 1700050000 (sample_row 0 1700000000),
      enrich 1700050000 (sample_row 50 1699999999),
      enrich 1700050000 (sample_row (- 500001 / 10000) 1700043200)]"
  by (simp add: sample_enriched_def sample_frame_def)

text \<open>
  C1. In every record that \<open>transform\<close> returns, the temperature category is the bucket of
  the record's temperature in Celsius: below 0 it is "Very Cold", from 0 up to but not
  including 10 "Cold", from 10 up to 20 "Mild", from 20 up to 30 "Warm", and from 30 on
  "Hot". A temperature of exactly 0, 10, 20 or 30 is in the upper bucket.
\<close>

theorem temp_category_buckets:
  assumes "fst (transform E w df) = Inr out" and "r \<in> set (rows out)"
  shows "(temperature r < 0 \<longrightarrow> temp_category_col r = ''Very Cold'') \<and>
         (0 \<le> temperature r \<and> temperature r < 10 \<longrightarrow> temp_category_col r = ''Cold'') \<and>
         (10 \<le> temperature r \<and> temperature r < 20 \<longrightarrow> temp_category_col r = ''Mild'') \<and>
         (20 \<le> temperature r \<and> temperature r < 30 \<longrightarrow> temp_category_col r = ''Warm'') \<and>
         (30 \<le> temperature r \<longrightarrow> temp_category_col r = ''Hot'') \<and>
         (temperature r = 0 \<longrightarrow> temp_category_col r = ''Cold'') \<and>
         (temperature r = 10 \<longrightarrow> temp_category_col r = ''Mild'') \<and>
         (temperature r = 20 \<longrightarrow> temp_category_col r = ''Warm'') \<and>
         (temperature r = 30 \<longrightarrow> temp_category_col r = ''Hot'')"
proof -
  from assms obtain x where r: "r = enrich (clock E (clock_reads w)) x"
    by (rule transform_row)
  show ?thesis
    unfolding r by (simp add: enrich_def temp_category_def)
qed

theorem temp_category_buckets_witness:
  "fst (transform sample_env sample_world sample_frame) = Inr sample_enriched \<and>
   enrich 1700050000 (sample_row (45 / 2) 1700003600) \<in> set (rows sample_enriched) \<and>
   temp_category_col (enrich 1700050000 (sample_row (45 / 2) 1700003600)) = ''Warm'' \<and>
   enrich 1700050000 (sample_row 0 1700000000) \<in> set (rows sample_enriched) \<and>
   temp_category_col (enrich 1700050000 (sample_row 0 1700000000)) = ''Cold''"
proof -
  have m1: "enrich 1700050000 (sample_row (45 / 2) 1700003600) \<in> set (rows sample_enriched)"
    by (simp add: sample_enriched_rows)
  have m2: "enrich 1700050000 (sample_row 0 1700000000) \<in> set (rows sample_enriched)"
    by (simp add: sample_enriched_rows)
  have t1: "temperature (enrich 1700050000 (sample_row (45 / 2) 1700003600)) = 45 / 2"
    by (simp add: enrich_def sample_row_def)
  have t2: "temperature (enrich 1700050000 (sample_row 0 1700000000)) = 0"
    by (simp add: enrich_def sample_row_def)
  from temp_category_buckets [OF transform_sample m1]
    temp_category_buckets [OF transform_sample m2] transform_sample m1 m2 t1 t2
  show ?thesis by simp
qed

text \<open>
  C2. In every record that \<open>transform\<close> returns, the data quality flag is "Suspicious"
  exactly when the temperature in Celsius is above 50 or below -50, and "Good" otherwise;
  a temperature of exactly 50 or exactly -50 is "Good".
\<close>

theorem data_quality_flag:
  assumes "fst (transform E w df) = Inr out" and "r \<in> set (rows out)"
  shows "(data_quality r = ''Suspicious'' \<longleftrightarrow> temperature r > 50 \<or> temperature r < - 50) \<and>
         (data_quality r = ''Good'' \<longleftrightarrow> \<not> (temperature r > 50 \<or> temperature r < - 50)) \<and>
         (temperature r = 50 \<longrightarrow> data_quality r = ''Good'') \<and>
         (temperature r = - 50 \<longrightarrow> data_quality r = ''Good'')"
proof -
  from assms obtain x where r: "r = enrich (clock E (clock_reads w)) x"
    by (rule transform_row)
  show ?thesis
    unfolding r by (simp add: enrich_def mark_data_quality_def)
qed

theorem data_quality_flag_witness:
  "fst (transform sample_env sample_world sample_frame) = Inr sample_enriched \<and>
   enrich 1700050000 (sample_row 50 1699999999) \<in> set (rows sample_enriched) \<and>
   data_quality (enrich 1700050000 (sample_row 50 1699999999)) = ''Good'' \<and>
   enrich 1700050000 (sample_row (- 500001 / 10000) 1700043200) \<in> set (rows sample_enriched) \<and>
   data_quality (enrich 1700050000 (sample_row (- 500001 / 10000) 1700043200)) = ''Suspicious''"
proof -
  have m1: "enrich 1700050000 (sample_row 50 1699999999) \<in> set (rows sample_enriched)"
    by (simp add: sample_enriched_rows)
  have m2: "enrich 1700050000 (sample_row (- 500001 / 10000) 1700043200)
              \<in> set (rows sample_enriched)"
    by (simp add: sample_enriched_rows)
  have t1: "temperature (enrich 1700050000 (sample_row 50 1699999999)) = 50"
    by (simp add: enrich_def sample_row_def)
  have t2: "temperature (enrich 1700050000 (sample_row (- 500001 / 10000) 1700043200))
              = - 500001 / 10000"
    by (simp add: enrich_def sample_row_def)
  from data_quality_flag [OF transform_sample m1] data_quality_flag [OF transform_sample m2]
    transform_sample m1 m2 t1 t2
  show ?thesis by simp
qed

text \<open>
  C3. In every record that \<open>transform\<close> returns, the day/night indicator is "Day" exactly
  when sunrise <= observation timestamp <= sunset, both bounds included, and "Night"
  otherwise. With sunrise not after sunset, a timestamp equal to sunrise or to sunset
  gives "Day"; a timestamp one second before sunrise gives "Night".
\<close>

theorem day_night_indicator:
  assumes "fst (transform E w df) = Inr out" and "r \<in> set (rows out)"
  shows "(day_night r = ''Day'' \<longleftrightarrow> sunrise r \<le> timestamp r \<and> timestamp r \<le> sunset r) \<and>
         (day_night r = ''Night'' \<longleftrightarrow> \<not> (sunrise r \<le> timestamp r \<and> timestamp r \<le> sunset r)) \<and>
         (timestamp r = sunrise r \<and> sunrise r \<le> sunset r \<longrightarrow> day_night r = ''Day'') \<and>
         (timestamp r = sunset r \<and> sunrise r \<le> sunset r \<longrightarrow> day_night r = ''Day'') \<and>
         (timestamp r = sunrise r - 1 \<longrightarrow> day_night r = ''Night'')"
proof -
  from assms obtain x where r: "r = enrich (clock E (clock_reads w)) x"
    by (rule transform_row)
  show ?thesis
    unfolding r by (simp add: enrich_def is_daytime_def)
qed

theorem day_night_indicator_witness:
  "fst (transform sample_env sample_world sample_frame) = Inr sample_enriched \<and>
   enrich 1700050000 (sample_row 0 1700000000) \<in> set (rows sample_enriched) \<and>
   day_night (enrich 1700050000 (sample_row 0 1700000000)) = ''Day'' \<and>
   enrich 1700050000 (sample_row (- 500001 / 10000) 1700043200) \<in> set (rows sample_enriched) \<and>
   day_night (enrich 1700050000 (sample_row (- 500001 / 10000) 1700043200)) = ''Day'' \<and>
   enrich 1700050000 (sample_row 50 1699999999) \<in> set (rows sample_enriched) \<and>
   day_night (enrich 1700050000 (sample_row 50 1699999999)) = ''Night''"
proof -
  let ?a = "enrich 1700050000 (sample_row 0 1700000000)"
  let ?b = "enrich 1700050000 (sample_row (- 500001 / 10000) 1700043200)"
  let ?c = "enrich 1700050000 (sample_row 50 1699999999)"
  have m: "?a \<in> set (rows sample_enriched)" "?b \<in> set (rows sample_enriched)"
    "?c \<in> set (rows sample_enriched)"
    by (simp_all add: sample_enriched_rows)
  have ta: "timestamp ?a = sunrise ?a" "sunrise ?a \<le> sunset ?a"
    by (simp_all add: enrich_def sample_row_def)
  have tb: "timestamp ?b = sunset ?b" "sunrise ?b \<le> sunset ?b"
    by (simp_all add: enrich_def sample_row_def)
  have tc: "timestamp ?c = sunrise ?c - 1"
    by (simp add: enrich_def sample_row_def)
  from day_night_indicator [OF transform_sample m(1)] ta
  have "day_night ?a = ''Day''" by (elim conjE) (rule mp, assumption, rule conjI)
  moreover from day_night_indicator [OF transform_sample m(2)] tb
  have "day_night ?b = ''Day''" by (elim conjE) (rule mp, assumption, rule conjI)
  moreover from day_night_indicator [OF transform_sample m(3)] tc
  have "day_night ?c = ''Night''" by (elim conjE) (rule mp, assumption)
  ultimately show ?thesis using transform_sample m by (intro conjI)
qed

text \<open>
  C5. Within one call of \<open>transform\<close>, every record of the returned batch carries the same
  etl timestamp, the clock reading taken at the start of the call; the clock is read
  exactly once in the call, whatever the number of records.
\<close>

theorem single_etl_timestamp:
  assumes "fst (transform E w df) = Inr out"
  shows "(\<forall>r \<in> set (rows out). etl_timestamp r = clock E (clock_reads w)) \<and>
         clock_reads (snd (transform E w df)) = Suc (clock_reads w)"
proof -
  have "etl_timestamp r = clock E (clock_reads w)" if "r \<in> set (rows out)" for r
  proof -
    from assms that obtain x where "r = enrich (clock E (clock_reads w)) x"
      by (rule transform_row)
    then show ?thesis by (simp add: enrich_def)
  qed
  then show ?thesis by (simp add: transform_clock_reads)
qed

theorem single_etl_timestamp_witness:
  "fst (transform sample_env sample_world sample_frame) = Inr sample_enriched \<and>
   map etl_timestamp (rows sample_enriched) = [1700050000, 1700050000, 1700050000, 1700050000] \<and>
   clock sample_env (clock_reads sample_world) = 1700050000 \<and>
   clock_reads (snd (transform sample_env sample_world sample_frame)) = 1"
proof -
  have c: "clock sample_env (clock_reads sample_world) = 1700050000"
    and z: "clock_reads sample_world = 0"
    by (simp_all add: sample_env_def sample_world_def)
  from single_etl_timestamp [OF transform_sample] c z
  have "\<forall>r \<in> set (rows sample_enriched). etl_timestamp r = 1700050000"
    and "clock_reads (snd (transform sample_env sample_world sample_frame)) = 1"
    by simp_all
  with transform_sample c show ?thesis
    by (simp add: sample_enriched_rows)
qed

text \<open>
  C6. For every batch of observations (a frame with the twelve observation columns),
  \<open>transform\<close> returns a batch of the same length and in the same order, in which every
  source field of every record is that of the input record at the same position; the
  derived columns are appended after the source columns.
\<close>

theorem transform_preserves:
  assumes "columns df = observation_columns"
  shows "\<exists>out. fst (transform E w df) = Inr out \<and>
           length (rows out) = length (rows df) \<and>
           map observation.truncate (rows out) = rows df \<and>
           (\<forall>i < length (rows df).
              city (rows out ! i) = city (rows df ! i) \<and>
              country (rows out ! i) = country (rows df ! i) \<and>
              temperature (rows out ! i) = temperature (rows df ! i) \<and>
              feels_like (rows out ! i) = feels_like (rows df ! i) \<and>
              humidity (rows out ! i) = humidity (rows df ! i) \<and>
              pressure (rows out ! i) = pressure (rows df ! i) \<and>
              wind_speed (rows out ! i) = wind_speed (rows df ! i) \<and>
              weather_main (rows out ! i) = weather_main (rows df ! i) \<and>
              weather_description (rows out ! i) = weather_description (rows df ! i) \<and>
              timestamp (rows out ! i) = timestamp (rows df ! i) \<and>
              sunrise (rows out ! i) = sunrise (rows df ! i) \<and>
              sunset (rows out ! i) = sunset (rows df ! i)) \<and>
           columns out = columns df @ added_columns"
proof -
  let ?out = "\<lparr>columns = observation_columns @ added_columns,
               rows = map (enrich (clock E (clock_reads w))) (rows df)\<rparr>"
  have "fst (transform E w df) = Inr ?out"
    using assms by (simp add: transform_fst transform_columns_observation)
  moreover have "map observation.truncate (rows ?out) = rows df"
    by (simp add: truncate_enrich comp_def)
  moreover have "length (rows ?out) = length (rows df)"
    by simp
  moreover have "columns ?out = columns df @ added_columns"
    using assms by simp
  moreover have "\<forall>i < length (rows df).
              city (rows ?out ! i) = city (rows df ! i) \<and>
              country (rows ?out ! i) = country (rows df ! i) \<and>
              temperature (rows ?out ! i) = temperature (rows df ! i) \<and>
              feels_like (rows ?out ! i) = feels_like (rows df ! i) \<and>
              humidity (rows ?out ! i) = humidity (rows df ! i) \<and>
              pressure (rows ?out ! i) = pressure (rows df ! i) \<and>
              wind_speed (rows ?out ! i) = wind_speed (rows df ! i) \<and>
              weather_main (rows ?out ! i) = weather_main (rows df ! i) \<and>
              weather_description (rows ?out ! i) = weather_description (rows df ! i) \<and>
              timestamp (rows ?out ! i) = timestamp (rows df ! i) \<and>
              sunrise (rows ?out ! i) = sunrise (rows df ! i) \<and>
              sunset (rows ?out ! i) = sunset (rows df ! i)"
    by (simp add: enrich_def)
  ultimately show ?thesis by (intro exI [of _ ?out] conjI)
qed

theorem transform_preserves_witness:
  "columns sample_frame = observation_columns \<and>
   fst (transform sample_env sample_world sample_frame) = Inr sample_enriched \<and>
   length (rows sample_enriched) = 4 \<and>
   map observation.truncate (rows sample_enriched) = rows sample_frame \<and>
   temperature (rows sample_enriched ! 2) = 50 \<and>
   columns sample_enriched = observation_columns @ added_columns"
proof -
  have h: "columns sample_frame = observation_columns"
    by (simp add: sample_frame_def)
  from transform_preserves [OF h, of sample_env sample_world] obtain out where
    out: "fst (transform sample_env sample_world sample_frame) = Inr out"
    and len: "length (rows out) = length (rows sample_frame)"
    and tr: "map observation.truncate (rows out) = rows sample_frame"
    and fld: "\<forall>i < length (rows sample_frame).
                temperature (rows out ! i) = temperature (rows sample_frame ! i)"
    and cols: "columns out = columns sample_frame @ added_columns"
    by (elim exE conjE) simp
  from out transform_sample have eq: "out = sample_enriched" by simp
  have n: "length (rows sample_frame) = 4"
    and t: "temperature (rows sample_frame ! 2) = 50"
    by (simp_all add: sample_frame_def sample_row_def)
  from fld n have "temperature (rows out ! 2) = temperature (rows sample_frame ! 2)"
    by simp
  with h transform_sample len tr cols n t show ?thesis
    unfolding eq by simp
qed

section \<open>Properties of extract\<close>

lemma and_then_InrE:
  assumes "and_then m f = Inr y"
  obtains x where "m = Inr x" and "f x = Inr y"
  using assms by (cases m) (auto simp: and_then_def)

lemma getitem_InrE:
  assumes "getitem k v = Inr x"
  shows "v = Some x"
  using assms by (cases v) (auto simp: getitem_def)

lemma first_item_InrE:
  assumes "first_item xs = Inr x"
  obtains rest where "xs = x # rest"
  using assms by (cases xs) (auto simp: first_item_def)

lemma processed_data_required:
  assumes "processed_data E c wd = Inr row"
  shows "has_required_fields wd"
  using assms unfolding processed_data_def
  by (elim and_then_InrE first_item_InrE) (auto dest!: getitem_InrE simp: has_required_fields_def)

lemma processed_data_city:
  assumes "processed_data E c wd = Inr row"
  shows "city row = c"
  using assms unfolding processed_data_def
  by (elim and_then_InrE) auto

lemma fetch_fails_isl:
  assumes "fetch_fails E key c"
  shows "\<exists>e. fetch E c (city_request key c) = Inl e"
proof (cases "fetch E c (city_request key c)")
  case (Inl e)
  then show ?thesis by blast
next
  case (Inr row)
  then have False using assms
    by (auto simp: fetch_def fetch_fails_def raise_for_status_def and_then_def
        split: http_result.splits if_splits option.splits dest: processed_data_required)
  then show ?thesis ..
qed

lemma fetch_city:
  "fetch E c p = Inr row \<Longrightarrow> city row = c"
  by (auto simp: fetch_def and_then_def raise_for_status_def
      split: http_result.splits if_splits option.splits sum.splits dest: processed_data_city)


lemma extract_loop_Inr:
  "fst (extract_loop E key cs acc w) = Inr out \<Longrightarrow>
   \<exists>new. out = acc @ new \<and> length new = length cs \<and> map city new = cs"
proof (induction cs arbitrary: acc w)
  case Nil
  then show ?case by simp
next
  case (Cons c cs)
  show ?case
  proof (cases "fetch E c (city_request key c)")
    case (Inl e)
    with Cons.prems show ?thesis by simp
  next
    case (Inr row)
    let ?w' = "logger_info [Txt ''Extracted weather data for '', Txt c]
                 (w\<lparr>sent := sent w @ [(WEATHER_API_URL, city_request key c)]\<rparr>)"
    from Cons.prems Inr have "fst (extract_loop E key cs (acc @ [row]) ?w') = Inr out"
      by (simp add: Let_def)
    from Cons.IH [OF this] obtain new where
      new: "out = (acc @ [row]) @ new" "length new = length cs" "map city new = cs"
      by (elim exE conjE)
    from Inr have "city row = c" by (rule fetch_city)
    with new have "out = acc @ (row # new) \<and> length (row # new) = length (c # cs) \<and>
      map city (row # new) = c # cs"
      by simp
    then show ?thesis by (rule exI [of _ "row # new"])
  qed
qed


lemma extract_loop_fails:
  "c \<in> set cs \<Longrightarrow> fetch E c (city_request key c) = Inl e \<Longrightarrow>
   \<exists>e'. fst (extract_loop E key cs acc w) = Inl e'"
proof (induction cs arbitrary: acc w)
  case Nil
  then show ?case by simp
next
  case (Cons d cs)
  show ?case
  proof (cases "fetch E d (city_request key d)")
    case (Inl e')
    then show ?thesis by simp
  next
    case (Inr row)
    with Cons.prems have "c \<in> set cs" by auto
    from Cons.IH [OF this Cons.prems(2)] Inr show ?thesis
      by (simp add: Let_def)
  qed
qed


lemma extract_loop_ok:
  "\<forall>c \<in> set cs. \<exists>row. fetch E c (city_request key c) = Inr row \<Longrightarrow>
   \<exists>out. fst (extract_loop E key cs acc w) = Inr out"
proof (induction cs arbitrary: acc w)
  case Nil
  then show ?case by simp
next
  case (Cons d cs)
  then obtain row where "fetch E d (city_request key d) = Inr row" by auto
  with Cons show ?case by (simp add: Let_def)
qed


lemma extract_loop_world:
  "pg (snd (extract_loop E key cs acc w)) = pg w \<and>
   clock_reads (snd (extract_loop E key cs acc w)) = clock_reads w \<and>
   pg_calls (snd (extract_loop E key cs acc w)) = pg_calls w"
proof (induction cs arbitrary: acc w)
  case Nil
  then show ?case by simp
next
  case (Cons d cs)
  show ?case
    by (cases "fetch E d (city_request key d)")
       (simp_all add: Let_def Cons.IH logger_info_def)
qed


lemma extract_weather_world:
  "pg (snd (extract_weather E cs w)) = pg w \<and>
   clock_reads (snd (extract_weather E cs w)) = clock_reads w \<and>
   pg_calls (snd (extract_weather E cs w)) = pg_calls w"
proof -
  let ?w0 = "logger_info [Txt ''Starting extraction phase...''] w"
  obtain r w1 where l: "extract_loop E (the (API_KEY E)) cs [] ?w0 = (r, w1)"
    by (cases "extract_loop E (the (API_KEY E)) cs [] ?w0")
  with extract_loop_world [of E "the (API_KEY E)" cs "[]" ?w0]
  have "pg w1 = pg w \<and> clock_reads w1 = clock_reads w \<and> pg_calls w1 = pg_calls w"
    by (simp add: logger_info_def)
  with l show ?thesis
    by (cases r) (simp_all add: extract_weather_def Let_def logger_info_def logger_error_def)
qed


lemma extract_weather_fst:
  "API_KEY E = Some key \<Longrightarrow> key \<noteq> [] \<Longrightarrow>
   fst (extract_weather E cs w) =
     map_sum id DataFrame
       (fst (extract_loop E key cs [] (logger_info [Txt ''Starting extraction phase...''] w)))"
  by (simp add: extract_weather_def Let_def split: prod.splits sum.splits)



lemma fetch_fails_member:
  "\<exists>c \<in> set cs. fetch_fails E key c \<Longrightarrow>
   \<exists>e. fst (extract_loop E key cs acc w) = Inl e"
proof -
  assume "\<exists>c \<in> set cs. fetch_fails E key c"
  then obtain c where c: "c \<in> set cs" "fetch_fails E key c" by (elim bexE)
  from fetch_fails_isl [OF c(2)] obtain e where "fetch E c (city_request key c) = Inl e"
    by (elim exE)
  with c(1) show ?thesis by (rule extract_loop_fails)
qed


lemma run_etl_pipeline_extract_fails:
  assumes "fst (extract_weather E CITIES (logger_info [Txt ''Starting Weather ETL pipeline...''] w)) = Inl e"
  shows "run_etl_pipeline E w =
           (Inl e,
            logger_error [Txt ''ETL pipeline failed: '', Exc e]
              (snd (extract_weather E CITIES
                      (logger_info [Txt ''Starting Weather ETL pipeline...''] w))))"
  using assms
  by (cases "extract_weather E CITIES (logger_info [Txt ''Starting Weather ETL pipeline...''] w)")
     (simp add: run_etl_pipeline_def Let_def)


lemma extract_loop_all:
  "(\<And>c. c \<in> set cs \<Longrightarrow> fetch E c (city_request key c) = Inr (f c)) \<Longrightarrow>
   fst (extract_loop E key cs acc w) = Inr (acc @ map f cs)"
proof (induction cs arbitrary: acc w)
  case Nil
  then show ?case by simp
next
  case (Cons d cs)
  have "fetch E d (city_request key d) = Inr (f d)"
    by (rule Cons.prems) simp
  moreover have "fst (extract_loop E key cs (acc @ [f d]) v) = Inr ((acc @ [f d]) @ map f cs)" for v
    by (rule Cons.IH) (simp add: Cons.prems)
  ultimately show ?case by (simp add: Let_def)
qed

lemma sample_processed_data:
  "processed_data sample_env c sample_response =
     Inr ((sample_row (45 / 2) 1700003600)\<lparr>city := c\<rparr>)"
  by (simp add: processed_data_def and_then_def getitem_def first_item_def fromtimestamp_def
      sample_response_def sample_env_def sample_row_def)

lemma sample_fetch:
  "fetch sample_env c (city_request key c) = Inr ((sample_row (45 / 2) 1700003600)\<lparr>city := c\<rparr>)"
proof -
  have "requests_get sample_env WEATHER_API_URL (city_request key c) =
          Response 200 (Some sample_response)"
    by (simp add: sample_env_def)
  then show ?thesis
    by (simp add: fetch_def raise_for_status_def and_then_def sample_processed_data)
qed

lemma extract_sample:
  "fst (extract_weather sample_env cs sample_world) =
     Inr (DataFrame (map (\<lambda>c. (sample_row (45 / 2) 1700003600)\<lparr>city := c\<rparr>) cs))"
proof -
  have k: "API_KEY sample_env = Some ''k''" "''k'' \<noteq> []"
    by (simp_all add: sample_env_def)
  show ?thesis
    by (simp add: extract_weather_fst [OF k] extract_loop_all [where f = "\<lambda>c. (sample_row (45 / 2) 1700003600)\<lparr>city := c\<rparr>"] sample_fetch)
qed

lemma tokyo_fetch_fails: "fetch_fails tokyo_404_env ''k'' ''Tokyo, JP''"
  by (simp add: fetch_fails_def tokyo_404_env_def sample_env_def city_request_def)


text \<open>
  C7. With the credential present: if the fetch for any one location fails (no answer, a
  non-success status, a body that is not JSON or that lacks a required field), the whole
  call of \<open>extract\<close> fails, so no batch is returned, and the pipeline fails without reading
  the clock (no transform) and without touching the database (no load). When \<open>extract\<close>
  succeeds, its batch has exactly one observation per requested location, in input order.
\<close>

theorem extract_all_or_nothing:
  assumes "API_KEY E = Some key" and "key \<noteq> []"
  shows "((\<exists>c \<in> set cities. fetch_fails E key c) \<longrightarrow>
            (\<exists>e. fst (extract_weather E cities w) = Inl e)) \<and>
         (\<forall>df. fst (extract_weather E cities w) = Inr df \<longrightarrow>
            length (rows df) = length cities \<and> map city (rows df) = cities) \<and>
         ((\<exists>c \<in> set CITIES. fetch_fails E key c) \<longrightarrow>
            (\<exists>e. fst (run_etl_pipeline E w) = Inl e) \<and>
            clock_reads (snd (run_etl_pipeline E w)) = clock_reads w \<and>
            pg_calls (snd (run_etl_pipeline E w)) = pg_calls w \<and>
            pg (snd (run_etl_pipeline E w)) = pg w)"
proof -
  have fails: "\<exists>e. fst (extract_weather E cs v) = Inl e"
    if "\<exists>c \<in> set cs. fetch_fails E key c" for cs v
  proof -
    let ?v0 = "logger_info [Txt ''Starting extraction phase...''] v"
    from that have "\<exists>e. fst (extract_loop E key cs [] ?v0) = Inl e"
      by (rule fetch_fails_member)
    then obtain e where "fst (extract_loop E key cs [] ?v0) = Inl e"
      by (elim exE)
    with extract_weather_fst [OF assms, of cs v]
    have "fst (extract_weather E cs v) = Inl e" by simp
    then show ?thesis ..
  qed
  have shape: "length (rows df) = length cities \<and> map city (rows df) = cities"
    if ok: "fst (extract_weather E cities w) = Inr df" for df
  proof -
    let ?w0 = "logger_info [Txt ''Starting extraction phase...''] w"
    from ok extract_weather_fst [OF assms, of cities w]
    obtain out where out: "fst (extract_loop E key cities [] ?w0) = Inr out"
      and df: "df = DataFrame out"
      by (cases "fst (extract_loop E key cities [] ?w0)") simp_all
    from extract_loop_Inr [OF out] have "length out = length cities \<and> map city out = cities"
      by simp
    with df show ?thesis by (simp add: DataFrame_def)
  qed
  have pipeline: "(\<exists>e. fst (run_etl_pipeline E w) = Inl e) \<and>
            clock_reads (snd (run_etl_pipeline E w)) = clock_reads w \<and>
            pg_calls (snd (run_etl_pipeline E w)) = pg_calls w \<and>
            pg (snd (run_etl_pipeline E w)) = pg w"
    if bad: "\<exists>c \<in> set CITIES. fetch_fails E key c"
  proof -
    let ?w0 = "logger_info [Txt ''Starting Weather ETL pipeline...''] w"
    from fails [OF bad, of ?w0] obtain e where
      e: "fst (extract_weather E CITIES ?w0) = Inl e"
      by (elim exE)
    note run = run_etl_pipeline_extract_fails [OF e]
    from extract_weather_world [of E CITIES ?w0] run show ?thesis
      by (simp add: logger_info_def logger_error_def)
  qed
  have A: "(\<exists>c \<in> set cities. fetch_fails E key c) \<longrightarrow>
            (\<exists>e. fst (extract_weather E cities w) = Inl e)"
    by (rule impI) (rule fails)
  have B: "\<forall>df. fst (extract_weather E cities w) = Inr df \<longrightarrow>
            length (rows df) = length cities \<and> map city (rows df) = cities"
    by (intro allI impI) (rule shape)
  have C: "(\<exists>c \<in> set CITIES. fetch_fails E key c) \<longrightarrow>
            (\<exists>e. fst (run_etl_pipeline E w) = Inl e) \<and>
            clock_reads (snd (run_etl_pipeline E w)) = clock_reads w \<and>
            pg_calls (snd (run_etl_pipeline E w)) = pg_calls w \<and>
            pg (snd (run_etl_pipeline E w)) = pg w"
    by (rule impI) (rule pipeline)
  from A B C show ?thesis by (intro conjI)
qed

theorem extract_all_or_nothing_witness:
  "API_KEY tokyo_404_env = Some ''k'' \<and> ''Tokyo, JP'' \<in> set CITIES \<and>
   fetch_fails tokyo_404_env ''k'' ''Tokyo, JP'' \<and>
   (\<exists>e. fst (extract_weather tokyo_404_env CITIES sample_world) = Inl e) \<and>
   (\<exists>e. fst (run_etl_pipeline tokyo_404_env sample_world) = Inl e) \<and>
   pg (snd (run_etl_pipeline tokyo_404_env sample_world)) = pg sample_world \<and>
   API_KEY sample_env = Some ''k'' \<and>
   (\<exists>df. fst (extract_weather sample_env CITIES sample_world) = Inr df \<and>
         length (rows df) = 5 \<and> map city (rows df) = CITIES)"
proof -
  have k1: "API_KEY tokyo_404_env = Some ''k''" and k2: "API_KEY sample_env = Some ''k''"
    and k: "''k'' \<noteq> []"
    by (simp_all add: tokyo_404_env_def sample_env_def)
  have mem: "''Tokyo, JP'' \<in> set CITIES"
    by (simp add: CITIES_def)
  have bad: "\<exists>c \<in> set CITIES. fetch_fails tokyo_404_env ''k'' c"
    using tokyo_fetch_fails mem by (rule bexI)
  note a = extract_all_or_nothing [OF k1 k, of CITIES sample_world]
  note b = extract_all_or_nothing [OF k2 k, of CITIES sample_world]
  have f1: "\<exists>e. fst (extract_weather tokyo_404_env CITIES sample_world) = Inl e"
    using a [THEN conjunct1] bad by (rule mp)
  have f3: "(\<exists>e. fst (run_etl_pipeline tokyo_404_env sample_world) = Inl e) \<and>
            clock_reads (snd (run_etl_pipeline tokyo_404_env sample_world)) =
              clock_reads sample_world \<and>
            pg_calls (snd (run_etl_pipeline tokyo_404_env sample_world)) = pg_calls sample_world \<and>
            pg (snd (run_etl_pipeline tokyo_404_env sample_world)) = pg sample_world"
    using a [THEN conjunct2, THEN conjunct2] bad by (rule mp)
  let ?df = "DataFrame (map (\<lambda>c. (sample_row (45 / 2) 1700003600)\<lparr>city := c\<rparr>) CITIES)"
  have ok: "fst (extract_weather sample_env CITIES sample_world) = Inr ?df"
    by (rule extract_sample)
  have sh: "length (rows ?df) = length CITIES \<and> map city (rows ?df) = CITIES"
    using b [THEN conjunct2, THEN conjunct1, THEN spec, of ?df] ok by (rule mp)
  have n: "length CITIES = 5" by (simp add: CITIES_def)
  have g: "fst (extract_weather sample_env CITIES sample_world) = Inr ?df \<and>
         length (rows ?df) = 5 \<and> map city (rows ?df) = CITIES"
    using ok sh n by (intro conjI) (simp_all only:)
  have f4: "\<exists>df. fst (extract_weather sample_env CITIES sample_world) = Inr df \<and>
         length (rows df) = 5 \<and> map city (rows df) = CITIES"
    by (rule exI [of _ ?df]) (rule g)
  note f3a = f3 [THEN conjunct1]
  note f3b = f3 [THEN conjunct2, THEN conjunct2, THEN conjunct2]
  from k1 mem tokyo_fetch_fails f1 f3a f3b k2 f4 show ?thesis
    by (intro conjI)
qed

text \<open>
  C8. If the provider credential is absent (\<open>API_KEY\<close> is \<open>None\<close> or the empty string),
  \<open>extract\<close> fails at once with the error ValueError('Missing API key'), the code's
  configuration error, having sent no request; the pipeline fails with the same error,
  nothing but the log changes, and \<open>load\<close> is not invoked: no round trip to the database
  is made and the log has no record of the loading phase.
\<close>

theorem missing_credential:
  assumes "API_KEY E = None \<or> API_KEY E = Some []"
  shows "extract_weather E cities w =
           (Inl (ValueError ''Missing API key''),
            w\<lparr>logged := logged w @
               [INFO [Txt ''Starting extraction phase...''],
                ERROR [Txt ''No API key found. Set WEATHER_API_KEY in your .env file'']]\<rparr>) \<and>
         sent (snd (extract_weather E cities w)) = sent w \<and>
         run_etl_pipeline E w =
           (Inl (ValueError ''Missing API key''),
            w\<lparr>logged := logged w @
               [INFO [Txt ''Starting Weather ETL pipeline...''],
                INFO [Txt ''Starting extraction phase...''],
                ERROR [Txt ''No API key found. Set WEATHER_API_KEY in your .env file''],
                ERROR [Txt ''ETL pipeline failed: '', Exc (ValueError ''Missing API key'')]]\<rparr>) \<and>
         sent (snd (run_etl_pipeline E w)) = sent w \<and>
         pg_calls (snd (run_etl_pipeline E w)) = pg_calls w \<and>
         pg (snd (run_etl_pipeline E w)) = pg w \<and>
         (INFO [Txt ''Starting loading phase...''] \<notin> set (logged w) \<longrightarrow>
          INFO [Txt ''Starting loading phase...''] \<notin> set (logged (snd (run_etl_pipeline E w))))"
proof -
  have ex: "extract_weather E cs v =
           (Inl (ValueError ''Missing API key''),
            v\<lparr>logged := logged v @
               [INFO [Txt ''Starting extraction phase...''],
                ERROR [Txt ''No API key found. Set WEATHER_API_KEY in your .env file'']]\<rparr>)"
    for cs v
    using assms by (auto simp: extract_weather_def Let_def logger_info_def logger_error_def)
  have run: "run_etl_pipeline E w =
           (Inl (ValueError ''Missing API key''),
            w\<lparr>logged := logged w @
               [INFO [Txt ''Starting Weather ETL pipeline...''],
                INFO [Txt ''Starting extraction phase...''],
                ERROR [Txt ''No API key found. Set WEATHER_API_KEY in your .env file''],
                ERROR [Txt ''ETL pipeline failed: '', Exc (ValueError ''Missing API key'')]]\<rparr>)"
    by (simp add: run_etl_pipeline_def Let_def ex logger_info_def logger_error_def)
  show ?thesis
    unfolding run ex by simp
qed

theorem missing_credential_witness:
  "API_KEY no_key_env = None \<and>
   fst (extract_weather no_key_env CITIES sample_world) = Inl (ValueError ''Missing API key'') \<and>
   sent (snd (extract_weather no_key_env CITIES sample_world)) = [] \<and>
   fst (run_etl_pipeline no_key_env sample_world) = Inl (ValueError ''Missing API key'') \<and>
   sent (snd (run_etl_pipeline no_key_env sample_world)) = [] \<and>
   pg_calls (snd (run_etl_pipeline no_key_env sample_world)) = 0 \<and>
   INFO [Txt ''Starting loading phase...'']
     \<notin> set (logged (snd (run_etl_pipeline no_key_env sample_world)))"
proof -
  have h: "API_KEY no_key_env = None"
    by (simp add: no_key_env_def sample_env_def)
  then have h': "API_KEY no_key_env = None \<or> API_KEY no_key_env = Some []" ..
  have w: "sent sample_world = []" "pg_calls sample_world = 0" "logged sample_world = []"
    by (simp_all add: sample_world_def)
  from missing_credential [OF h', of CITIES sample_world] h w show ?thesis
    by simp
qed

section \<open>Properties of create_table and load\<close>

lemma create_table_result:
  "(fst (create_table E w) = Inl OperationalError \<and> pg (snd (create_table E w)) = pg w) \<or>
   (fst (create_table E w) = Inr () \<and>
    pg (snd (create_table E w)) = execute_create (pg w))"
  by (simp add: create_table_def pg_call_def logger_info_def logger_error_def Let_def)

lemma execute_create_committed: "committed (execute_create d) = committed d"
  by (simp add: execute_create_def split: option.splits)

lemma insert_rows_length:
  "insert_rows d cols ts = Inr staged \<Longrightarrow> length staged = length ts"
  by (auto simp: insert_rows_def split: option.splits if_splits)

lemma itertuples_length: "length (itertuples df) = length (rows df)"
  by (simp add: itertuples_def)

lemma itertuples_Nil: "itertuples df = [] \<longleftrightarrow> rows df = []"
  by (simp add: itertuples_def)


lemma create_table_committed:
  "committed (pg (snd (create_table E w))) = committed (pg w)"
  using create_table_result [of E w] by (auto simp: execute_create_committed)

lemma load_success:
  assumes "load E w df = (Inr v, w')"
  shows "v = PyNone \<and>
         (\<exists>new. committed (pg w') = committed (pg w) @ new \<and> length new = length (rows df)) \<and>
         (\<exists>old. logged w' = old @ [INFO [Txt ''Successfully loaded '', Cnt (length (rows df)),
                                          Txt '' weather records into PostgreSQL'']])"
proof -
  let ?w0 = "logger_info [Txt ''Starting loading phase...''] w"
  let ?w1 = "snd (pg_call E ?w0)"
  obtain r w2 where ct: "create_table E ?w1 = (r, w2)"
    by (cases "create_table E ?w1")
  with create_table_committed [of E ?w1]
  have c2: "committed (pg w2) = committed (pg w)"
    by (simp add: pg_call_def logger_info_def)
  show ?thesis
  proof (cases "rows df = []")
    case True
    with assms ct c2 show ?thesis
      by (auto simp: load_def pg_call_def Let_def logger_info_def logger_error_def itertuples_Nil
          split: if_splits sum.splits)
  next
    case False
    with assms ct c2 show ?thesis
      by (auto simp: load_def pg_call_def Let_def logger_info_def logger_error_def
          itertuples_Nil itertuples_length
          split: if_splits sum.splits dest!: insert_rows_length)
  qed
qed

lemma load_failure:
  assumes "load E w df = (Inl e, w')"
  shows "committed (pg w') = committed (pg w) \<and>
         (\<exists>old. logged w' = old @ [ERROR [Txt ''Error loading data: '', Exc e]])"
proof -
  let ?w0 = "logger_info [Txt ''Starting loading phase...''] w"
  let ?w1 = "snd (pg_call E ?w0)"
  obtain r w2 where ct: "create_table E ?w1 = (r, w2)"
    by (cases "create_table E ?w1")
  with create_table_committed [of E ?w1]
  have c2: "committed (pg w2) = committed (pg w)"
    by (simp add: pg_call_def logger_info_def)
  from assms ct c2 show ?thesis
    by (auto simp: load_def pg_call_def Let_def logger_info_def logger_error_def
        split: if_splits sum.splits)
qed

lemma row_tuple_items:
  "zip (observation_columns @ added_columns)
     (map the (map (map_of (row_items r)) (observation_columns @ added_columns))) = row_items r"
  by (simp add: observation_columns_def added_columns_def row_items_def)

lemma insert_rows_Inr:
  "insert_rows d cols ts = Inr staged \<Longrightarrow>
   staged = map (\<lambda>t. zip cols (map the t)) ts \<and>
   (\<exists>tc. current_weather d = Some tc \<and> set cols \<subseteq> set tc)"
  by (auto simp: insert_rows_def split: option.splits if_splits)

lemma frame_columns_facts:
  "distinct (observation_columns @ added_columns) \<and>
   set (observation_columns @ added_columns) = set schema_columns \<and>
   length (observation_columns @ added_columns) = length schema_columns \<and>
   observation_columns @ added_columns \<noteq> schema_columns"
  by (auto simp: observation_columns_def added_columns_def schema_columns_def
      create_table_query_def)

lemma load_committed_rows:
  assumes "load E w df = (Inr v, w')" and "columns df = observation_columns @ added_columns"
  shows "committed (pg w') = committed (pg w) @ map row_items (rows df)"
proof -
  let ?w0 = "logger_info [Txt ''Starting loading phase...''] w"
  let ?w1 = "snd (pg_call E ?w0)"
  obtain r w2 where ct: "create_table E ?w1 = (r, w2)"
    by (cases "create_table E ?w1")
  with create_table_committed [of E ?w1]
  have c2: "committed (pg w2) = committed (pg w)"
    by (simp add: pg_call_def logger_info_def)
  have it: "map (\<lambda>t. zip (columns df) (map the t)) (itertuples df) = map row_items (rows df)"
    by (simp add: itertuples_def assms(2) observation_columns_def added_columns_def
        row_items_def)
  show ?thesis
  proof (cases "rows df = []")
    case True
    with assms ct c2 show ?thesis
      by (auto simp: load_def pg_call_def Let_def logger_info_def logger_error_def itertuples_Nil
          split: if_splits sum.splits)
  next
    case False
    with assms(1) ct c2 it show ?thesis
      by (auto simp: load_def pg_call_def Let_def logger_info_def logger_error_def
          itertuples_Nil 
          split: if_splits sum.splits dest!: insert_rows_Inr)
  qed
qed

lemma load_refused:
  assumes "current_weather (pg w) = Some tc" and "\<not> set (columns df) \<subseteq> set tc"
    and "rows df \<noteq> []"
  shows "\<exists>e. fst (load E w df) = Inl e"
proof -
  let ?w0 = "logger_info [Txt ''Starting loading phase...''] w"
  let ?w1 = "snd (pg_call E ?w0)"
  obtain r w2 where ct: "create_table E ?w1 = (r, w2)"
    by (cases "create_table E ?w1")
  with create_table_result [of E ?w1] assms(1)
  have "current_weather (pg w2) = Some tc"
    by (auto simp: pg_call_def logger_info_def execute_create_def)
  with assms ct show ?thesis
    by (auto simp: load_def pg_call_def Let_def logger_info_def logger_error_def
          itertuples_Nil insert_rows_def
          split: if_splits sum.splits)
qed

lemma sample_itertuples_ok: "\<not> (\<exists>t \<in> set (itertuples sample_enriched). None \<in> set t)"
  by (simp add: itertuples_def sample_enriched_def sample_frame_def observation_columns_def
      added_columns_def row_items_def)

lemma load_sample_fst: "fst (load sample_env sample_world sample_enriched) = Inr PyNone"
  using sample_itertuples_ok
  by (simp add: load_def create_table_def pg_call_def Let_def logger_info_def logger_error_def
      sample_env_def sample_world_def execute_create_def insert_rows_def
      create_table_query_def)
     (simp add: sample_enriched_def sample_frame_def itertuples_def observation_columns_def
      added_columns_def)

lemma load_commit_lost:
  "fst (load commit_lost_env sample_world sample_enriched) = Inl OperationalError"
  using sample_itertuples_ok
  by (simp add: load_def create_table_def pg_call_def Let_def logger_info_def logger_error_def
      commit_lost_env_def sample_env_def sample_world_def execute_create_def insert_rows_def
      create_table_query_def)
     (simp add: sample_enriched_def sample_frame_def itertuples_def observation_columns_def
      added_columns_def)


lemma legacy_columns:
  "current_weather (pg legacy_world) = Some [''id'', ''city'', ''temperature''] \<and>
   \<not> set (columns sample_enriched) \<subseteq> set [''id'', ''city'', ''temperature''] \<and>
   rows sample_enriched \<noteq> []"
  by (simp add: legacy_world_def sample_world_def sample_enriched_def observation_columns_def
      added_columns_def sample_frame_def)


text \<open>
  C9, as the code has it. \<open>load\<close> returns \<open>None\<close>, not a count. When it succeeds, exactly
  as many rows as the batch has records are added to the committed rows of the table, and
  the last log record reports that number. When it fails, it raises the underlying
  exception, the last log record names it, and the committed rows are as before: no row
  of the batch is committed.
\<close>

theorem load_rows_written:
  "(\<forall>v. fst (load E w df) = Inr v \<longrightarrow>
      v = PyNone \<and>
      (\<exists>new. committed (pg (snd (load E w df))) = committed (pg w) @ new \<and>
             length new = length (rows df)) \<and>
      (\<exists>old. logged (snd (load E w df)) =
               old @ [INFO [Txt ''Successfully loaded '', Cnt (length (rows df)),
                            Txt '' weather records into PostgreSQL'']])) \<and>
   (\<forall>e. fst (load E w df) = Inl e \<longrightarrow>
      committed (pg (snd (load E w df))) = committed (pg w) \<and>
      (\<exists>old. logged (snd (load E w df)) = old @ [ERROR [Txt ''Error loading data: '', Exc e]]))"
proof (intro conjI allI impI)
  fix v
  assume "fst (load E w df) = Inr v"
  then have "load E w df = (Inr v, snd (load E w df))"
    by (simp add: prod_eq_iff)
  from load_success [OF this]
  show "v = PyNone"
    and "\<exists>new. committed (pg (snd (load E w df))) = committed (pg w) @ new \<and>
             length new = length (rows df)"
    and "\<exists>old. logged (snd (load E w df)) =
               old @ [INFO [Txt ''Successfully loaded '', Cnt (length (rows df)),
                            Txt '' weather records into PostgreSQL'']]"
    by simp_all
next
  fix e
  assume "fst (load E w df) = Inl e"
  then have "load E w df = (Inl e, snd (load E w df))"
    by (simp add: prod_eq_iff)
  from load_failure [OF this]
  show "committed (pg (snd (load E w df))) = committed (pg w)"
    and "\<exists>old. logged (snd (load E w df)) = old @ [ERROR [Txt ''Error loading data: '', Exc e]]"
    by simp_all
qed

theorem load_returns_count_counterexample:
  "fst (load sample_env sample_world sample_enriched) = Inr PyNone \<and>
   length (rows sample_enriched) = 4 \<and> PyNone \<noteq> PyInt 4"
  using load_sample_fst by (simp add: sample_enriched_rows)

theorem load_rows_written_witness:
  "fst (load sample_env sample_world sample_enriched) = Inr PyNone \<and>
   length (committed (pg (snd (load sample_env sample_world sample_enriched)))) = 4 \<and>
   fst (load commit_lost_env sample_world sample_enriched) = Inl OperationalError \<and>
   committed (pg (snd (load commit_lost_env sample_world sample_enriched))) = []"
proof -
  note a = load_rows_written [of sample_env sample_world sample_enriched]
  note b = load_rows_written [of commit_lost_env sample_world sample_enriched]
  have c0: "committed (pg sample_world) = []"
    by (simp add: sample_world_def)
  have "\<exists>new. committed (pg (snd (load sample_env sample_world sample_enriched))) =
                committed (pg sample_world) @ new \<and>
              length new = length (rows sample_enriched)"
    using a [THEN conjunct1, THEN spec, THEN mp, OF load_sample_fst]
    by (elim conjE)
  then have n: "length (committed (pg (snd (load sample_env sample_world sample_enriched)))) = 4"
    by (auto simp: c0 sample_enriched_rows)
  have "committed (pg (snd (load commit_lost_env sample_world sample_enriched))) =
          committed (pg sample_world)"
    using b [THEN conjunct2, THEN spec, THEN mp, OF load_commit_lost]
    by (elim conjE)
  with c0 have m: "committed (pg (snd (load commit_lost_env sample_world sample_enriched))) = []"
    by simp
  from load_sample_fst n load_commit_lost m show ?thesis
    by (intro conjI)
qed

text \<open>
  C10, as the code has it. The INSERT names its columns in the order of the frame's
  columns: the twelve extracted ones, then the six derived ones. That is not the order of
  the schema's declarations, but it is the same set of columns, each once, and every
  value is stored under the column of its own name; \<open>load\<close> checks no order. An INSERT
  that names a column the existing table does not have is refused by the database, and
  nothing is committed.
\<close>

theorem insert_columns_by_name:
  assumes "columns df = observation_columns @ added_columns"
  shows "distinct (columns df) \<and> set (columns df) = set schema_columns \<and>
         length (columns df) = length schema_columns \<and>
         columns df \<noteq> schema_columns \<and>
         (\<forall>v. fst (load E w df) = Inr v \<longrightarrow>
            committed (pg (snd (load E w df))) = committed (pg w) @ map row_items (rows df)) \<and>
         (\<forall>tc. current_weather (pg w) = Some tc \<and> \<not> set (columns df) \<subseteq> set tc \<and>
               rows df \<noteq> [] \<longrightarrow>
            (\<exists>e. fst (load E w df) = Inl e) \<and>
            committed (pg (snd (load E w df))) = committed (pg w))"
proof -
  have stored: "committed (pg (snd (load E w df))) = committed (pg w) @ map row_items (rows df)"
    if "fst (load E w df) = Inr v" for v
  proof -
    from that have "load E w df = (Inr v, snd (load E w df))"
      by (simp add: prod_eq_iff)
    then show ?thesis using assms by (rule load_committed_rows)
  qed
  have refused: "(\<exists>e. fst (load E w df) = Inl e) \<and>
            committed (pg (snd (load E w df))) = committed (pg w)"
    if "current_weather (pg w) = Some tc \<and> \<not> set (columns df) \<subseteq> set tc \<and> rows df \<noteq> []"
    for tc
  proof -
    from that have "\<exists>e. fst (load E w df) = Inl e"
      by (intro load_refused [of w tc df E]) simp_all
    then obtain e where e: "fst (load E w df) = Inl e" by (elim exE)
    then have "load E w df = (Inl e, snd (load E w df))"
      by (simp add: prod_eq_iff)
    from load_failure [OF this] e show ?thesis by simp
  qed
  have A: "\<forall>v. fst (load E w df) = Inr v \<longrightarrow>
            committed (pg (snd (load E w df))) = committed (pg w) @ map row_items (rows df)"
    by (intro allI impI) (rule stored)
  have B: "\<forall>tc. current_weather (pg w) = Some tc \<and> \<not> set (columns df) \<subseteq> set tc \<and>
               rows df \<noteq> [] \<longrightarrow>
            (\<exists>e. fst (load E w df) = Inl e) \<and>
            committed (pg (snd (load E w df))) = committed (pg w)"
    by (intro allI impI) (rule refused)
  from frame_columns_facts A B show ?thesis
    unfolding assms by (intro conjI) simp_all
qed


theorem insert_columns_by_name_witness:
  "columns sample_enriched = observation_columns @ added_columns \<and>
   fst (load sample_env sample_world sample_enriched) = Inr PyNone \<and>
   committed (pg (snd (load sample_env sample_world sample_enriched))) =
     map row_items (rows sample_enriched) \<and>
   map_of (hd (committed (pg (snd (load sample_env sample_world sample_enriched)))))
     ''temp_category'' = Some (Text ''Warm'') \<and>
   (\<exists>e. fst (load sample_env legacy_world sample_enriched) = Inl e) \<and>
   committed (pg (snd (load sample_env legacy_world sample_enriched))) = []"
proof -
  have h: "columns sample_enriched = observation_columns @ added_columns"
    by (simp add: sample_enriched_def)
  note a = insert_columns_by_name [OF h, of sample_env sample_world]
  note b = insert_columns_by_name [OF h, of sample_env legacy_world]
  have c0: "committed (pg sample_world) = []" "committed (pg legacy_world) = []"
    by (simp_all add: sample_world_def legacy_world_def)
  have st: "committed (pg (snd (load sample_env sample_world sample_enriched))) =
          committed (pg sample_world) @ map row_items (rows sample_enriched)"
    using a [THEN conjunct2, THEN conjunct2, THEN conjunct2, THEN conjunct2, THEN conjunct1,
             THEN spec, THEN mp, OF load_sample_fst] .
  then have st': "committed (pg (snd (load sample_env sample_world sample_enriched))) =
          map row_items (rows sample_enriched)"
    by (simp add: c0)
  have tf: "map_of (hd (map row_items (rows sample_enriched))) ''temp_category'' =
              Some (Text ''Warm'')"
    by (simp add: sample_enriched_rows row_items_def enrich_def sample_row_def temp_category_def)
  have rf: "(\<exists>e. fst (load sample_env legacy_world sample_enriched) = Inl e) \<and>
            committed (pg (snd (load sample_env legacy_world sample_enriched))) =
              committed (pg legacy_world)"
    using b [THEN conjunct2, THEN conjunct2, THEN conjunct2, THEN conjunct2, THEN conjunct2,
             THEN spec, THEN mp, OF legacy_columns] .
  from h load_sample_fst st' tf rf c0 show ?thesis
    by simp
qed

theorem column_order_counterexample:
  "fst (transform sample_env sample_world sample_frame) = Inr sample_enriched \<and>
   columns sample_enriched \<noteq> schema_columns \<and>
   columns sample_enriched ! 3 = ''feels_like'' \<and> schema_columns ! 3 = ''temperature_f'' \<and>
   fst (load sample_env sample_world sample_enriched) = Inr PyNone"
  using transform_sample load_sample_fst
  by (simp add: sample_enriched_def observation_columns_def added_columns_def
      schema_columns_def create_table_query_def)


end
